theory Spec2Isabelle
  imports Main "HOL-Library.Word" "HOL-Library.Signed_Division"
begin

section \<open>Shared value types\<close>

text \<open>
  \<^verbatim>\<open>type ObjectVisibility string\<close>: any Go string can be passed as a visibility, so the
  model keeps it a \<open>string\<close> and names the three recognised constants.
\<close>

type_synonym ObjectVisibility = string

definition ObjectPrivate :: ObjectVisibility where
  "ObjectPrivate = ''private''"

definition ObjectPublicReadWrite :: ObjectVisibility where
  "ObjectPublicReadWrite = ''public-read-write''"

definition ObjectPublicRead :: ObjectVisibility where
  "ObjectPublicRead = ''public-read''"

text \<open>
  Go's \<^verbatim>\<open>error\<close> values. \<open>io_EOF\<close> is the sentinel \<^verbatim>\<open>io.EOF\<close>; \<open>Errorf\<close> carries the
  text that \<^verbatim>\<open>fmt.Errorf\<close> formats; \<open>External\<close> is an error produced outside the
  library (the SDKs, the operating system, a caller's reader). A nil error is \<open>None\<close>.
\<close>

datatype error = io_EOF | Errorf string | External string

type_synonym byte = "8 word"

text \<open>\<^verbatim>\<open>time.Duration\<close> is an \<^verbatim>\<open>int64\<close> count of nanoseconds, compared as a signed value.\<close>

type_synonym Duration = "64 word"


definition time_Second :: Duration where
  "time_Second = 1000000000"



section \<open>Path normaliser\<close>

text \<open>
  \<^verbatim>\<open>filepath.ToSlash\<close> replaces the platform separator by a slash; the separator is a
  parameter of the model (\<open>CHR ''/''\<close> on Unix, a backslash on Windows).
\<close>

definition filepath_ToSlash :: "char \<Rightarrow> string \<Rightarrow> string" where
  "filepath_ToSlash sep p =
     (if sep = CHR ''/'' then p else map (\<lambda>c. if c = sep then CHR ''/'' else c) p)"

text \<open>\<^verbatim>\<open>strings.Split(p, "/")\<close>: the slash-separated elements of a path, empty ones included.\<close>

fun split_slash :: "string \<Rightarrow> string list" where
  "split_slash [] = [[]]"
| "split_slash (c # cs) =
     (if c = CHR ''/'' then [] # split_slash cs
      else (case split_slash cs of [] \<Rightarrow> [[c]] | s # ss \<Rightarrow> (c # s) # ss))"

text \<open>\<^verbatim>\<open>strings.Join(elems, "/")\<close>.\<close>

fun join_slash :: "string list \<Rightarrow> string" where
  "join_slash [] = []"
| "join_slash [s] = s"
| "join_slash (s # t # ss) = s @ CHR ''/'' # join_slash (t # ss)"

text \<open>
  Go's \<^verbatim>\<open>path.Clean\<close> (standard library), by its documented rules: multiple slashes
  become one, every \<^verbatim>\<open>.\<close> element is dropped, an inner \<^verbatim>\<open>..\<close> element is dropped together
  with the non-\<^verbatim>\<open>..\<close> element before it, a \<^verbatim>\<open>..\<close> element that begins a rooted path is
  dropped, a \<^verbatim>\<open>..\<close> element that begins a relative path is kept, and the empty result is
  \<^verbatim>\<open>.\<close>. \<open>clean_elems\<close> walks the elements left to right with the output so far as a
  stack (last element first).
\<close>

fun clean_elems :: "bool \<Rightarrow> string list \<Rightarrow> string list \<Rightarrow> string list" where
  "clean_elems rooted out [] = rev out"
| "clean_elems rooted out (e # es) =
     (if e = [] \<or> e = ''.'' then clean_elems rooted out es
      else if e = ''..'' then
        (case out of
           [] \<Rightarrow> if rooted then clean_elems rooted [] es
                 else clean_elems rooted [''..''] es
         | t # ts \<Rightarrow> if t = ''..'' then clean_elems rooted (''..'' # out) es
                     else clean_elems rooted ts es)
      else clean_elems rooted (e # out) es)"

definition path_Clean :: "string \<Rightarrow> string" where
  "path_Clean p =
     (if p = [] then ''.''
      else
        let rooted = (hd p = CHR ''/'');
            body = join_slash (clean_elems rooted [] (split_slash p))
        in if rooted then CHR ''/'' # body
           else if body = [] then ''.'' else body)"

text \<open>\<^verbatim>\<open>cleanS3ObjectPath\<close> and \<^verbatim>\<open>cleanOSSObjectPath\<close>: the same two calls.\<close>

definition cleanS3ObjectPath :: "char \<Rightarrow> string \<Rightarrow> string" where
  "cleanS3ObjectPath sep objectPath = path_Clean (filepath_ToSlash sep objectPath)"

definition cleanOSSObjectPath :: "char \<Rightarrow> string \<Rightarrow> string" where
  "cleanOSSObjectPath sep objectPath = path_Clean (filepath_ToSlash sep objectPath)"

text \<open>
  \<^verbatim>\<open>filepath.Join\<close> of two elements on a platform whose separator is the slash (the Unix
  implementation): empty leading elements are skipped, the rest is joined with slashes and
  cleaned; with nothing left the result is empty.
\<close>

definition filepath_Join :: "string \<Rightarrow> string \<Rightarrow> string" where
  "filepath_Join a b =
     (if a \<noteq> [] then path_Clean (a @ CHR ''/'' # b)
      else if b \<noteq> [] then path_Clean b
      else [])"




section \<open>Remote backend on AWS S3\<close>

definition maxRetry :: nat where
  "maxRetry = 3"

definition s3PartSize :: nat where
  "s3PartSize = 5120 * 1024"


record storageS3 =
  bucketName :: string
  region :: string

text \<open>The canned ACL names and grant permissions of the AWS SDK.\<close>

definition BucketCannedACLPrivate :: string where
  "BucketCannedACLPrivate = ''private''"

definition BucketCannedACLPublicRead :: string where
  "BucketCannedACLPublicRead = ''public-read''"

definition BucketCannedACLPublicReadWrite :: string where
  "BucketCannedACLPublicReadWrite = ''public-read-write''"

definition PermissionRead :: string where
  "PermissionRead = ''READ''"

definition PermissionWrite :: string where
  "PermissionWrite = ''WRITE''"

definition getS3ACLOrError :: "ObjectVisibility \<Rightarrow> error + string" where
  "getS3ACLOrError visibility =
     (if visibility = ObjectPublicRead then Inr BucketCannedACLPublicRead
      else if visibility = ObjectPublicReadWrite then Inr BucketCannedACLPublicReadWrite
      else if visibility = ObjectPrivate then Inr BucketCannedACLPrivate
      else Inl (Errorf (''err invalid object visibility: '' @ visibility)))"

subsection \<open>The source stream\<close>

text \<open>
  An \<^verbatim>\<open>io.Reader\<close> is modelled by the results of its successive \<^verbatim>\<open>Read\<close> calls: the
  bytes the call delivered and the error it returned with them. After the last scripted
  result the reader answers \<^verbatim>\<open>(0, io.EOF)\<close> for ever. A stream that never ends is outside
  the model (a put of it never returns).
\<close>

type_synonym read_result = "byte list \<times> error option"

type_synonym reader = "read_result list"

definition reader_Read :: "reader \<Rightarrow> read_result \<times> reader" where
  "reader_Read src = (case src of [] \<Rightarrow> (([], Some io_EOF), []) | r # rs \<Rightarrow> (r, rs))"

text \<open>
  \<^verbatim>\<open>bytes.Reader\<close> and \<^verbatim>\<open>strings.Reader\<close> fill the caller's buffer while content is left
  and then report end of stream: read with a buffer of \<open>n\<close> bytes, the content comes in
  pieces of \<open>n\<close> bytes, the last one possibly shorter.
\<close>

function chunks :: "nat \<Rightarrow> 'a list \<Rightarrow> 'a list list" where
  "chunks n xs = (if n = 0 \<or> xs = [] then [] else take n xs # chunks n (drop n xs))"
  by pat_completeness auto
termination
  by (relation "measure (\<lambda>(n, xs). length xs)") auto

definition bytes_Reader :: "nat \<Rightarrow> byte list \<Rightarrow> reader" where
  "bytes_Reader n content = map (\<lambda>d. (d, None)) (chunks n content)"

subsection \<open>The service and the requests it receives\<close>

record CreateMultipartUploadOutput =
  Bucket :: string
  Key :: string
  UploadId :: string

record CompletedPart =
  ETag :: string
  PartNumber :: "64 word"

text \<open>
  Every call the library makes on the SDK, with the arguments the claims are about, and
  the two-second pause between upload attempts. \<^verbatim>\<open>completedParts\<close> is a slice of pointers:
  an entry can be nil, hence the \<open>option\<close>.
\<close>

datatype s3_request =
    CreateMultipartUpload string string string
  | UploadPart string string string "byte list" "64 word"
  | AbortMultipartUpload string string string
  | CompleteMultipartUpload string string string "CompletedPart option list"
  | Sleep Duration

text \<open>
  The service's answers are parameters: what \<^verbatim>\<open>CreateMultipartUpload\<close>, the \<open>n\<close>-th
  \<^verbatim>\<open>UploadPart\<close> request (counted from 0 within the put; an error or the part's ETag),
  \<^verbatim>\<open>AbortMultipartUpload\<close> and \<^verbatim>\<open>CompleteMultipartUpload\<close> return.
\<close>

record s3_service =
  createMultipartUpload :: "error + CreateMultipartUploadOutput"
  uploadPart :: "nat \<Rightarrow> error + string"
  abortMultipartUpload :: "error option"
  completeMultipartUpload :: "error option"

text \<open>The requests sent so far, oldest first, and the number of upload requests among them.\<close>

record s3_world =
  sent :: "s3_request list"
  uploads :: nat

definition send :: "s3_request \<Rightarrow> s3_world \<Rightarrow> s3_world" where
  "send r w = w\<lparr>sent := sent w @ [r]\<rparr>"

definition send_upload :: "s3_request \<Rightarrow> s3_world \<Rightarrow> s3_world" where
  "send_upload r w = w\<lparr>sent := sent w @ [r], uploads := Suc (uploads w)\<rparr>"

subsection \<open>Multipart upload\<close>

function uploadMultipart_loop ::
  "s3_service \<Rightarrow> CreateMultipartUploadOutput \<Rightarrow> byte list \<Rightarrow> 64 word \<Rightarrow> nat \<Rightarrow> s3_world
     \<Rightarrow> (CompletedPart option \<times> error option) \<times> s3_world" where
  "uploadMultipart_loop service resp data partNumber retry w =
     (if retry < maxRetry then
        (let w1 = send_upload (UploadPart (Bucket resp) (Key resp) (UploadId resp) data partNumber) w
         in case uploadPart service (uploads w) of
              Inl err \<Rightarrow>
                (if retry + 1 \<ge> maxRetry then ((None, Some err), w1)
                 else uploadMultipart_loop service resp data partNumber (retry + 1)
                        (send (Sleep (time_Second * 2)) w1))
            | Inr etag \<Rightarrow> ((Some \<lparr>ETag = etag, PartNumber = partNumber\<rparr>, None), w1))
      else ((None, None), w))"
  by pat_completeness auto
termination
  by (relation "measure (\<lambda>(service, resp, data, partNumber, retry, w). maxRetry - retry)") auto

definition uploadMultipart ::
  "s3_service \<Rightarrow> CreateMultipartUploadOutput \<Rightarrow> byte list \<Rightarrow> 64 word \<Rightarrow> s3_world
     \<Rightarrow> (CompletedPart option \<times> error option) \<times> s3_world" where
  "uploadMultipart service resp data partNumber w =
     uploadMultipart_loop service resp data partNumber 0 w"

definition abortMultipartUpload_call ::
  "s3_service \<Rightarrow> CreateMultipartUploadOutput \<Rightarrow> s3_world \<Rightarrow> error option \<times> s3_world" where
  "abortMultipartUpload_call service resp w =
     (abortMultipartUpload service,
      send (AbortMultipartUpload (Bucket resp) (Key resp) (UploadId resp)) w)"

text \<open>
  What a call of \<^verbatim>\<open>Put\<close> does: it returns an error or nil, or it panics (slicing the
  buffer beyond its length, when a reader reports more bytes than the buffer holds).
\<close>

datatype put_outcome = Returned "error option" | Panicked

definition completeMultipartUpload_call ::
  "s3_service \<Rightarrow> CreateMultipartUploadOutput \<Rightarrow> CompletedPart option list \<Rightarrow> s3_world
     \<Rightarrow> error option \<times> s3_world" where
  "completeMultipartUpload_call service resp completedParts w =
     (completeMultipartUpload service,
      send (CompleteMultipartUpload (Bucket resp) (Key resp) (UploadId resp) completedParts) w)"

text \<open>
  The read loop of \<^verbatim>\<open>Put\<close> and the completion call after it. One equation per state of
  the reader: exhausted, it answers \<^verbatim>\<open>(0, io.EOF)\<close>, which is not a failure and reads no
  byte, so the loop breaks. After a failed abort the abort's error is returned; after a
  successful one, the error that led to it (the inner \<^verbatim>\<open>err\<close> of the source shadows the
  outer one only inside its \<^verbatim>\<open>if\<close>).
\<close>

fun put_loop ::
  "s3_service \<Rightarrow> CreateMultipartUploadOutput \<Rightarrow> reader \<Rightarrow> 64 word \<Rightarrow> CompletedPart option list
     \<Rightarrow> s3_world \<Rightarrow> put_outcome \<times> s3_world" where
  "put_loop service resp [] partNumber completedParts w =
     (case completeMultipartUpload_call service resp completedParts w of
        (Some cerr, w1) \<Rightarrow> (Returned (Some cerr), w1)
      | (None, w1) \<Rightarrow> (Returned None, w1))"
| "put_loop service resp ((data, err) # rest) partNumber completedParts w =
     (if err \<noteq> None \<and> err \<noteq> Some io_EOF then
        (case abortMultipartUpload_call service resp w of
           (Some aerr, w1) \<Rightarrow> (Returned (Some aerr), w1)
         | (None, w1) \<Rightarrow> (Returned err, w1))
      else if length data \<le> 0 then
        (case completeMultipartUpload_call service resp completedParts w of
           (Some cerr, w1) \<Rightarrow> (Returned (Some cerr), w1)
         | (None, w1) \<Rightarrow> (Returned None, w1))
      else if length data > s3PartSize then (Panicked, w)
      else
        (case uploadMultipart service resp data partNumber w of
           ((completed, Some uerr), w1) \<Rightarrow>
             (case abortMultipartUpload_call service resp w1 of
                (Some aerr, w2) \<Rightarrow> (Returned (Some aerr), w2)
              | (None, w2) \<Rightarrow> (Returned (Some uerr), w2))
         | ((completed, None), w1) \<Rightarrow>
             put_loop service resp rest (partNumber + 1) (completedParts @ [completed]) w1))"

text \<open>
  \<^verbatim>\<open>Put\<close>. The result is the outcome together with the requests the call sent, starting
  from none.
\<close>

definition s3_Put ::
  "char \<Rightarrow> storageS3 \<Rightarrow> s3_service \<Rightarrow> string \<Rightarrow> reader \<Rightarrow> ObjectVisibility
     \<Rightarrow> put_outcome \<times> s3_world" where
  "s3_Put sep s service objectPath source visibility =
     (let objectPath = cleanS3ObjectPath sep objectPath;
          w = \<lparr>sent = [], uploads = 0\<rparr>
      in case getS3ACLOrError visibility of
           Inl err \<Rightarrow> (Returned (Some err), w)
         | Inr acl \<Rightarrow>
             (case createMultipartUpload service of
                Inl err \<Rightarrow>
                  (Returned (Some err), send (CreateMultipartUpload acl (bucketName s) objectPath) w)
              | Inr createdResp \<Rightarrow>
                  put_loop service createdResp source 1 []
                    (send (CreateMultipartUpload acl (bucketName s) objectPath) w)))"

subsection \<open>The one-request operations\<close>







definition s3_URL :: "char \<Rightarrow> storageS3 \<Rightarrow> string \<Rightarrow> string" where
  "s3_URL sep s objectPath =
     (if objectPath = [] then []
      else ''https://'' @ bucketName s @ ''.s3-'' @ region s @ ''.amazonaws.com/''
           @ cleanS3ObjectPath sep objectPath)"


subsection \<open>Signed URLs and visibility\<close>



record Grant =
  GranteeURI :: "string option"
  Permission :: "string option"

text \<open>\<^verbatim>\<open>aws.StringValue\<close>: the empty string for a nil pointer.\<close>

definition StringValue :: "string option \<Rightarrow> string" where
  "StringValue p = (case p of None \<Rightarrow> [] | Some v \<Rightarrow> v)"

definition AllUsers :: string where
  "AllUsers = ''http://acs.amazonaws.com/groups/global/AllUsers''"

fun grants_loop :: "Grant list \<Rightarrow> bool \<times> bool \<Rightarrow> bool \<times> bool" where
  "grants_loop [] (hasRead, hasWrite) = (hasRead, hasWrite)"
| "grants_loop (grant # grants) (hasRead, hasWrite) =
     (if StringValue (GranteeURI grant) = AllUsers then
        (if StringValue (Permission grant) = PermissionRead then grants_loop grants (True, hasWrite)
         else if StringValue (Permission grant) = PermissionWrite then grants_loop grants (hasRead, True)
         else grants_loop grants (hasRead, hasWrite))
      else grants_loop grants (hasRead, hasWrite))"

text \<open>
  \<^verbatim>\<open>GetVisibility\<close>: \<open>getObjectAcl\<close> is the SDK's answer for a bucket and a key (the grants
  and the error). The result is Go's pair of the visibility and the error.
\<close>

definition s3_GetVisibility ::
  "storageS3 \<Rightarrow> (string \<Rightarrow> string \<Rightarrow> Grant list \<times> error option) \<Rightarrow> string
     \<Rightarrow> ObjectVisibility \<times> error option" where
  "s3_GetVisibility s getObjectAcl objectPath =
     (case getObjectAcl (bucketName s) objectPath of
        (grants, err) \<Rightarrow>
          if err \<noteq> None then ([], err)
          else
            (case grants_loop grants (False, False) of
               (hasRead, hasWrite) \<Rightarrow>
                 if hasRead \<and> hasWrite then (ObjectPublicReadWrite, None)
                 else if hasRead then (ObjectPublicRead, None)
                 else ([], err)))"

subsection \<open>Reading the record of requests\<close>



fun aborts :: "s3_request list \<Rightarrow> (string \<times> string \<times> string) list" where
  "aborts [] = []"
| "aborts (AbortMultipartUpload b k u # rs) = (b, k, u) # aborts rs"
| "aborts (r # rs) = aborts rs"


section \<open>Remote backend on Alibaba OSS\<close>


text \<open>The ACL names of the OSS SDK (\<^verbatim>\<open>oss.ACLType\<close> is a string type).\<close>

definition ACLPrivate :: string where
  "ACLPrivate = ''private''"

definition ACLPublicRead :: string where
  "ACLPublicRead = ''public-read''"

definition ACLPublicReadWrite :: string where
  "ACLPublicReadWrite = ''public-read-write''"

definition getACLOSSOrError :: "ObjectVisibility \<Rightarrow> error + string" where
  "getACLOSSOrError visibility =
     (if visibility = ObjectPublicRead then Inr ACLPublicRead
      else if visibility = ObjectPublicReadWrite then Inr ACLPublicReadWrite
      else if visibility = ObjectPrivate then Inr ACLPrivate
      else Inl (Errorf (''err invalid object visibility: '' @ visibility)))"

text \<open>The requests the library sends to the bucket, with the keys it passes; every
  operation returns the requests it sent.\<close>

datatype oss_request =
    OssPutObject string reader "string list"
  | OssDeleteObject string
  | OssDeleteObjects "string list"

record oss_bucket =
  putObject :: "error option"
  deleteObject :: "error option"
  deleteObjects :: "error option"

definition oss_Put ::
  "char \<Rightarrow> oss_bucket \<Rightarrow> string \<Rightarrow> reader \<Rightarrow> ObjectVisibility \<Rightarrow> error option \<times> oss_request list" where
  "oss_Put sep bucket objectPath source visibility =
     (case getACLOSSOrError visibility of
        Inr acl \<Rightarrow>
          (putObject bucket, [OssPutObject (cleanOSSObjectPath sep objectPath) source [acl]])
      | Inl err \<Rightarrow> (Some err, []))"


text \<open>\<^verbatim>\<open>StorageResize\<close> and its \<^verbatim>\<open>ConvertForOss\<close>, which accepts a nil receiver.\<close>

record StorageResize =
  MaxHeight :: "int option"






text \<open>\<^verbatim>\<open>GetVisibility\<close>: \<open>getObjectACL\<close> is the SDK's answer for a key (the ACL and the error).\<close>

definition oss_GetVisibility ::
  "char \<Rightarrow> (string \<Rightarrow> string \<times> error option) \<Rightarrow> string \<Rightarrow> ObjectVisibility \<times> error option" where
  "oss_GetVisibility sep getObjectACL objectPath =
     (case getObjectACL (cleanOSSObjectPath sep objectPath) of
        (aclType, err) \<Rightarrow>
          if err \<noteq> None then ([], err)
          else if aclType = ACLPrivate then (ObjectPrivate, None)
          else if aclType = ACLPublicRead then (ObjectPublicRead, None)
          else if aclType = ACLPublicReadWrite then (ObjectPublicReadWrite, None)
          else ([], Some (Errorf ''invalid returned ACL value'')))"

section \<open>Local backend on two directory trees\<close>

subsection \<open>The file system\<close>

text \<open>
  The operating system is modelled by the names it binds. A name is an absolute, cleaned
  path; it is bound to a regular file (an inode number: two hard links of one file carry
  the same number) or to a symbolic link with its target. \<open>inodes\<close> gives the content of
  every file. Directories are not entries of this model: the names are those of files and
  links, and a missing parent directory is created on demand (see \<open>mkdirIfNotExists\<close>).
  The operations fail for the reasons the names give (a missing name, a name already
  bound); failures of the machine (permissions, a full disk) are outside the model.
\<close>

datatype dirent = Regular nat | Symlink string

record filesystem =
  names :: "string \<rightharpoonup> dirent"
  inodes :: "nat \<Rightarrow> byte list"
  next_inode :: nat

definition empty_filesystem :: filesystem where
  "empty_filesystem = \<lparr>names = Map.empty, inodes = (\<lambda>i. []), next_inode = 0\<rparr>"

text \<open>
  The process: \<^verbatim>\<open>runtime.GOOS\<close>, the working directory (an absolute path), and the error
  of \<^verbatim>\<open>os.Getwd\<close> when the working directory cannot be reported. The platform separator is
  the slash (Linux and the other Unix systems), so \<^verbatim>\<open>filepath.ToSlash\<close> changes nothing.
\<close>

record os_env =
  GOOS :: string
  cwd :: string
  getwd_error :: "error option"

text \<open>The name a path denotes: a relative path is resolved in the working directory.\<close>

definition kernel_path :: "os_env \<Rightarrow> string \<Rightarrow> string" where
  "kernel_path env p = (if take 1 p = ''/'' then path_Clean p else filepath_Join (cwd env) p)"

text \<open>\<^verbatim>\<open>filepath.Abs\<close> (Unix): a rooted path is cleaned; another one is joined to \<^verbatim>\<open>os.Getwd()\<close>.\<close>

definition filepath_Abs :: "os_env \<Rightarrow> string \<Rightarrow> error + string" where
  "filepath_Abs env p =
     (if take 1 p = ''/'' then Inr (path_Clean p)
      else (case getwd_error env of
              Some err \<Rightarrow> Inl err
            | None \<Rightarrow> Inr (filepath_Join (cwd env) p)))"

text \<open>
  \<^verbatim>\<open>filepath.Dir\<close> (Unix): the path up to its last slash, cleaned (\<^verbatim>\<open>.\<close> when there is no
  slash).
\<close>

definition filepath_Dir :: "string \<Rightarrow> string" where
  "filepath_Dir p = path_Clean (rev (dropWhile (\<lambda>c. c \<noteq> CHR ''/'') (rev p)))"

text \<open>\<^verbatim>\<open>path.Join\<close> of two elements: as \<^verbatim>\<open>filepath.Join\<close> on Unix.\<close>

definition path_Join :: "string \<Rightarrow> string \<Rightarrow> string" where
  "path_Join a b =
     (if a \<noteq> [] then path_Clean (a @ CHR ''/'' # b)
      else if b \<noteq> [] then path_Clean b
      else [])"

definition ENOENT :: error where
  "ENOENT = External ''no such file or directory''"

definition EEXIST :: error where
  "EEXIST = External ''file exists''"

definition ELOOP :: error where
  "ELOOP = External ''too many levels of symbolic links''"

text \<open>
  The name a path leads to when the symbolic links on it are followed; the kernel gives
  up after 40 links.
\<close>

fun follow :: "nat \<Rightarrow> os_env \<Rightarrow> (string \<rightharpoonup> dirent) \<Rightarrow> string \<Rightarrow> error + string" where
  "follow 0 env ns name = Inl ELOOP"
| "follow (Suc n) env ns name =
     (case ns name of
        Some (Symlink target) \<Rightarrow> follow n env ns (kernel_path env target)
      | _ \<Rightarrow> Inr name)"

text \<open>
  \<^verbatim>\<open>os.Create\<close>: the file is created or, when it exists, truncated. The result is the open
  file (its inode number) with the file system.
\<close>

definition os_Create :: "os_env \<Rightarrow> filesystem \<Rightarrow> string \<Rightarrow> error + (nat \<times> filesystem)" where
  "os_Create env fs name =
     (if name = [] then Inl ENOENT
      else
        (case follow 41 env (names fs) (kernel_path env name) of
           Inl err \<Rightarrow> Inl err
         | Inr q \<Rightarrow>
             (case names fs q of
                Some (Regular i) \<Rightarrow> Inr (i, fs\<lparr>inodes := (inodes fs)(i := [])\<rparr>)
              | _ \<Rightarrow>
                  Inr (next_inode fs,
                       fs\<lparr>names := (names fs)(q \<mapsto> Regular (next_inode fs)),
                          inodes := (inodes fs)(next_inode fs := []),
                          next_inode := Suc (next_inode fs)\<rparr>))))"

text \<open>\<^verbatim>\<open>os.Open\<close>: the open file (its inode number).\<close>

definition os_Open :: "os_env \<Rightarrow> filesystem \<Rightarrow> string \<Rightarrow> error + nat" where
  "os_Open env fs name =
     (if name = [] then Inl ENOENT
      else
        (case follow 41 env (names fs) (kernel_path env name) of
           Inl err \<Rightarrow> Inl err
         | Inr q \<Rightarrow>
             (case names fs q of
                Some (Regular i) \<Rightarrow> Inr i
              | _ \<Rightarrow> Inl ENOENT)))"

text \<open>\<^verbatim>\<open>os.Remove\<close> unbinds the name itself (a symbolic link is not followed).\<close>

definition os_Remove :: "os_env \<Rightarrow> filesystem \<Rightarrow> string \<Rightarrow> error option \<times> filesystem" where
  "os_Remove env fs name =
     (case names fs (kernel_path env name) of
        None \<Rightarrow> (Some ENOENT, fs)
      | Some e \<Rightarrow> (None, fs\<lparr>names := (names fs)(kernel_path env name := None)\<rparr>))"

text \<open>
  \<^verbatim>\<open>os.Symlink(oldname, newname)\<close> binds \<open>newname\<close> to a link with the target \<open>oldname\<close>;
  the target need not exist.
\<close>

definition os_Symlink :: "os_env \<Rightarrow> filesystem \<Rightarrow> string \<Rightarrow> string \<Rightarrow> error option \<times> filesystem" where
  "os_Symlink env fs oldname newname =
     (if newname = [] then (Some ENOENT, fs)
      else
        (case names fs (kernel_path env newname) of
           Some e \<Rightarrow> (Some EEXIST, fs)
         | None \<Rightarrow> (None, fs\<lparr>names := (names fs)(kernel_path env newname \<mapsto> Symlink oldname)\<rparr>)))"

text \<open>\<^verbatim>\<open>os.Link(oldname, newname)\<close> binds \<open>newname\<close> to what \<open>oldname\<close> is bound to.\<close>

definition os_Link :: "os_env \<Rightarrow> filesystem \<Rightarrow> string \<Rightarrow> string \<Rightarrow> error option \<times> filesystem" where
  "os_Link env fs oldname newname =
     (case names fs (kernel_path env oldname) of
        None \<Rightarrow> (Some ENOENT, fs)
      | Some e \<Rightarrow>
          (if newname = [] then (Some ENOENT, fs)
           else
             (case names fs (kernel_path env newname) of
                Some e' \<Rightarrow> (Some EEXIST, fs)
              | None \<Rightarrow> (None, fs\<lparr>names := (names fs)(kernel_path env newname \<mapsto> e)\<rparr>))))"

text \<open>\<^verbatim>\<open>(*os.File).Write\<close> appends to the file (the files here are written from their start).\<close>

definition file_Write :: "nat \<Rightarrow> byte list \<Rightarrow> filesystem \<Rightarrow> filesystem" where
  "file_Write file data fs = fs\<lparr>inodes := (inodes fs)(file := inodes fs file @ data)\<rparr>"

text \<open>
  \<^verbatim>\<open>io.Copy(file, source)\<close> reads into a buffer of 32 KiB and writes what each read
  delivered, until a read returns an error; \<^verbatim>\<open>io.EOF\<close> ends the copy without an error.
  A read that reports more bytes than the buffer holds makes the slice expression panic.
\<close>

definition copyBufferSize :: nat where
  "copyBufferSize = 32 * 1024"

fun io_Copy :: "nat \<Rightarrow> reader \<Rightarrow> filesystem \<Rightarrow> put_outcome \<times> filesystem" where
  "io_Copy file [] fs = (Returned None, fs)"
| "io_Copy file ((data, err) # rest) fs =
     (if length data > copyBufferSize then (Panicked, fs)
      else
        (case err of
           None \<Rightarrow> io_Copy file rest (file_Write file data fs)
         | Some er \<Rightarrow>
             (Returned (if er = io_EOF then None else Some er), file_Write file data fs)))"

text \<open>Reading an open file: its content in pieces of the size of the buffer.\<close>

definition file_reader :: "nat \<Rightarrow> filesystem \<Rightarrow> reader" where
  "file_reader file fs = bytes_Reader copyBufferSize (inodes fs file)"

subsection \<open>The storage\<close>

record storageLocalFile =
  baseDir :: string
  publicBaseDir :: string
  publicBaseURL :: string
  signedURLBuilder :: "string \<Rightarrow> string \<Rightarrow> Duration \<Rightarrow> string \<times> error option"

text \<open>
  Modelled from the spec: the helper \<^verbatim>\<open>isFileExists\<close> is called by the storage but its
  source is not part of the repository files at hand. The spec speaks of an entry being
  present in a tree (``if a public-tree entry exists'', ``public-tree entry present''): the
  helper tells whether the path is a bound name.
\<close>

definition isFileExists :: "os_env \<Rightarrow> filesystem \<Rightarrow> string \<Rightarrow> bool" where
  "isFileExists env fs name = (names fs (kernel_path env name) \<noteq> None)"

text \<open>
  Modelled from the spec: the helper \<^verbatim>\<open>mkdirIfNotExists\<close> is called by the storage but its
  source is not part of the repository files at hand. The spec says ``parent directories
  created as needed'': with directories not being entries of the model the helper
  succeeds and leaves the names as they are.
\<close>

definition mkdirIfNotExists :: "os_env \<Rightarrow> filesystem \<Rightarrow> string \<Rightarrow> error option \<times> filesystem" where
  "mkdirIfNotExists env fs dir = (None, fs)"

definition checkAndCreateParentDirectory ::
  "os_env \<Rightarrow> filesystem \<Rightarrow> string \<Rightarrow> error option \<times> filesystem" where
  "checkAndCreateParentDirectory env fs filePath =
     (let fileDir = filepath_Dir filePath in mkdirIfNotExists env fs fileDir)"

text \<open>\<^verbatim>\<open>err.Error()\<close>, as \<^verbatim>\<open>%s\<close> formats an error.\<close>

fun error_Error :: "error \<Rightarrow> string" where
  "error_Error io_EOF = ''EOF''"
| "error_Error (Errorf msg) = msg"
| "error_Error (External msg) = msg"

definition makeObjectPublic ::
  "os_env \<Rightarrow> storageLocalFile \<Rightarrow> filesystem \<Rightarrow> string \<Rightarrow> error option \<times> filesystem" where
  "makeObjectPublic env s fs objectPath =
     (let publicPath = filepath_Join (publicBaseDir s) objectPath in
      case checkAndCreateParentDirectory env fs publicPath of
        (Some err, fs1) \<Rightarrow> (Some err, fs1)
      | (None, fs1) \<Rightarrow>
          (case (if isFileExists env fs1 publicPath then os_Remove env fs1 publicPath
                 else (None, fs1)) of
             (Some err, fs2) \<Rightarrow> (Some err, fs2)
           | (None, fs2) \<Rightarrow>
               (let filePath = filepath_Join (baseDir s) objectPath in
                if GOOS env = ''linux'' then
                  (case filepath_Abs env (filepath_ToSlash (CHR ''/'') filePath) of
                     Inl err \<Rightarrow>
                       (Some (Errorf (''[local-storage] err while creating abs path: ''
                                        @ error_Error err)), fs2)
                   | Inr absFilePath \<Rightarrow>
                       (case os_Symlink env fs2 absFilePath publicPath of
                          (Some err, fs3) \<Rightarrow>
                            (Some (Errorf (''[local-storage] err creating sym link: ''
                                             @ error_Error err)), fs3)
                        | (None, fs3) \<Rightarrow> (None, fs3)))
                else os_Link env fs2 filePath publicPath)))"

definition local_Put ::
  "os_env \<Rightarrow> storageLocalFile \<Rightarrow> filesystem \<Rightarrow> string \<Rightarrow> reader \<Rightarrow> ObjectVisibility
     \<Rightarrow> put_outcome \<times> filesystem" where
  "local_Put env s fs objectPath source visibility =
     (let filePath = filepath_Join (baseDir s) objectPath in
      case checkAndCreateParentDirectory env fs filePath of
        (Some err, fs1) \<Rightarrow> (Returned (Some err), fs1)
      | (None, fs1) \<Rightarrow>
          (case os_Create env fs1 filePath of
             Inl err \<Rightarrow> (Returned (Some err), fs1)
           | Inr (file, fs2) \<Rightarrow>
               (case io_Copy file source fs2 of
                  (Panicked, fs3) \<Rightarrow> (Panicked, fs3)
                | (Returned err, fs3) \<Rightarrow>
                    if visibility = ObjectPublicRead \<or> visibility = ObjectPublicReadWrite then
                      (case makeObjectPublic env s fs3 objectPath of
                         (perr, fs4) \<Rightarrow> (Returned perr, fs4))
                    else (Returned err, fs3))))"

fun local_Delete ::
  "os_env \<Rightarrow> storageLocalFile \<Rightarrow> filesystem \<Rightarrow> string list \<Rightarrow> error option \<times> filesystem" where
  "local_Delete env s fs [] = (None, fs)"
| "local_Delete env s fs (objectPath # objectPaths) =
     (let publicPath = filepath_Join (publicBaseDir s) objectPath in
      case (if isFileExists env fs publicPath then os_Remove env fs publicPath else (None, fs)) of
        (Some err, fs1) \<Rightarrow> (Some err, fs1)
      | (None, fs1) \<Rightarrow>
          (let privatePath = filepath_Join (baseDir s) objectPath in
           case (if isFileExists env fs1 privatePath then os_Remove env fs1 privatePath
                 else (None, fs1)) of
             (Some err, fs2) \<Rightarrow> (Some err, fs2)
           | (None, fs2) \<Rightarrow> local_Delete env s fs2 objectPaths))"

definition local_Copy ::
  "os_env \<Rightarrow> storageLocalFile \<Rightarrow> filesystem \<Rightarrow> string \<Rightarrow> string \<Rightarrow> put_outcome \<times> filesystem" where
  "local_Copy env s fs srcObjectPath dstObjectPath =
     (let sourceFilePath = filepath_Join (baseDir s) srcObjectPath in
      case checkAndCreateParentDirectory env fs sourceFilePath of
        (Some err, fs1) \<Rightarrow> (Returned (Some err), fs1)
      | (None, fs1) \<Rightarrow>
          (case os_Open env fs1 sourceFilePath of
             Inl err \<Rightarrow> (Returned (Some err), fs1)
           | Inr sourceStream \<Rightarrow>
               (let destFilePath = filepath_Join (baseDir s) dstObjectPath in
                case checkAndCreateParentDirectory env fs1 destFilePath of
                  (Some err, fs2) \<Rightarrow> (Returned (Some err), fs2)
                | (None, fs2) \<Rightarrow>
                    (case os_Create env fs2 destFilePath of
                       Inl err \<Rightarrow> (Returned (Some err), fs2)
                     | Inr (destFile, fs3) \<Rightarrow>
                         io_Copy destFile (file_reader sourceStream fs3) fs3))))"

text \<open>
  \<^verbatim>\<open>URL\<close>. The fields of \<^verbatim>\<open>url.URL\<close> are those of the standard library; \<^verbatim>\<open>url.Parse\<close> and
  \<^verbatim>\<open>(*url.URL).String\<close> are parameters of the model. The resize argument is not used.
\<close>

record URL =
  Scheme :: string
  Host :: string
  Path :: string
  RawQuery :: string
  Fragment :: string

definition local_URL ::
  "(string \<Rightarrow> error + URL) \<Rightarrow> (URL \<Rightarrow> string) \<Rightarrow> os_env \<Rightarrow> storageLocalFile \<Rightarrow> filesystem
     \<Rightarrow> string \<Rightarrow> StorageResize option \<Rightarrow> string \<times> error option" where
  "local_URL url_Parse url_String env s fs objectPath storageResize =
     (if objectPath = [] then ([], None)
      else
        (let filePath = filepath_Join (publicBaseDir s) objectPath in
         if \<not> isFileExists env fs filePath then
           ([], Some (Errorf ''[local-storage] file not found in given public path''))
         else
           (case url_Parse (publicBaseURL s) of
              Inl err \<Rightarrow> ([], Some err)
            | Inr u \<Rightarrow> (url_String (u\<lparr>Path := path_Join (Path u) objectPath\<rparr>), None))))"

definition local_SetVisibility ::
  "os_env \<Rightarrow> storageLocalFile \<Rightarrow> filesystem \<Rightarrow> string \<Rightarrow> ObjectVisibility
     \<Rightarrow> error option \<times> filesystem" where
  "local_SetVisibility env s fs objectPath visibility =
     (let publicPath = filepath_Join (publicBaseDir s) objectPath in
      if visibility = ObjectPrivate then
        (if isFileExists env fs publicPath then os_Remove env fs publicPath else (None, fs))
      else if visibility = ObjectPublicRead \<or> visibility = ObjectPublicReadWrite then
        (if \<not> isFileExists env fs publicPath then makeObjectPublic env s fs objectPath
         else (None, fs))
      else (Some (Errorf (''[local-storage] err invalid object visibility: '' @ visibility)), fs))"

definition local_GetVisibility ::
  "os_env \<Rightarrow> storageLocalFile \<Rightarrow> filesystem \<Rightarrow> string \<Rightarrow> ObjectVisibility \<times> error option" where
  "local_GetVisibility env s fs objectPath =
     (let publicPath = filepath_Join (publicBaseDir s) objectPath in
      if isFileExists env fs publicPath then (ObjectPublicRead, None)
      else
        (let filePath = filepath_Join (baseDir s) objectPath in
         if isFileExists env fs filePath then (ObjectPrivate, None)
         else ([], Some (Errorf (''[local-storage] err get visibility, object not found: ''
                                   @ objectPath)))))"

text \<open>
  The two entries of a key: the name of its file in the private tree and the name of its
  link in the public tree.
\<close>

definition private_entry :: "os_env \<Rightarrow> storageLocalFile \<Rightarrow> filesystem \<Rightarrow> string \<Rightarrow> dirent option" where
  "private_entry env s fs key = names fs (kernel_path env (filepath_Join (baseDir s) key))"

definition public_entry :: "os_env \<Rightarrow> storageLocalFile \<Rightarrow> filesystem \<Rightarrow> string \<Rightarrow> dirent option" where
  "public_entry env s fs key = names fs (kernel_path env (filepath_Join (publicBaseDir s) key))"

section \<open>Time constants\<close>





section \<open>Unrecognised visibility on a remote put\<close>

text \<open>
  Claim C5. A remote put with a visibility that is none of \<^verbatim>\<open>private\<close>, \<^verbatim>\<open>public-read\<close> and
  \<^verbatim>\<open>public-read-write\<close> returns the validation error and sends no request: on S3 no
  multipart session is created, on OSS no object is put.
\<close>

theorem put_invalid_visibility_no_request:
  assumes "visibility \<notin> {ObjectPrivate, ObjectPublicRead, ObjectPublicReadWrite}"
  shows "s3_Put sep s service objectPath source visibility =
           (Returned (Some (Errorf (''err invalid object visibility: '' @ visibility))),
            \<lparr>sent = [], uploads = 0\<rparr>)
         \<and> oss_Put sep bucket objectPath source visibility =
           (Some (Errorf (''err invalid object visibility: '' @ visibility)), [])"
  using assms by (simp add: s3_Put_def oss_Put_def getS3ACLOrError_def getACLOSSOrError_def)

theorem put_invalid_visibility_no_request_witness:
  "''public'' \<notin> {ObjectPrivate, ObjectPublicRead, ObjectPublicReadWrite}
   \<and> s3_Put (CHR ''/'') \<lparr>bucketName = ''b'', region = ''r''\<rparr>
        \<lparr>createMultipartUpload = Inl (External ''down''), uploadPart = (\<lambda>n. Inr ''etag''),
         abortMultipartUpload = None, completeMultipartUpload = None\<rparr>
        ''a.txt'' [] ''public'' =
       (Returned (Some (Errorf ''err invalid object visibility: public'')), \<lparr>sent = [], uploads = 0\<rparr>)
   \<and> oss_Put (CHR ''/'')
        \<lparr>putObject = None, deleteObject = None, deleteObjects = None\<rparr> ''a.txt'' [] ''public'' =
       (Some (Errorf ''err invalid object visibility: public''), [])"
proof -
  have h: "''public'' \<notin> {ObjectPrivate, ObjectPublicRead, ObjectPublicReadWrite}"
    by (simp add: ObjectPrivate_def ObjectPublicRead_def ObjectPublicReadWrite_def)
  show ?thesis
    using h put_invalid_visibility_no_request [OF h, of "CHR ''/''" "\<lparr>bucketName = ''b'', region = ''r''\<rparr>"
        "\<lparr>createMultipartUpload = Inl (External ''down''), uploadPart = (\<lambda>n. Inr ''etag''),
         abortMultipartUpload = None, completeMultipartUpload = None\<rparr>" "''a.txt''" "[]"
        "\<lparr>putObject = None, deleteObject = None, deleteObjects = None\<rparr>"]
    by simp
qed

section \<open>Reading the visibility of a remote object\<close>

text \<open>
  Claim C9. On S3 the last branch of \<^verbatim>\<open>GetVisibility\<close> returns the error of the ACL request,
  which is nil there. For an object with no grant (a private object) and for one whose
  only all-users grant is a write grant, the ACL request succeeding, the result is the
  empty visibility together with a nil error. The OSS backend returns an error for an ACL
  it does not know.
\<close>

theorem s3_GetVisibility_unmapped_acl_nil_error:
  "s3_GetVisibility s (\<lambda>bucket key. ([], None)) objectPath = ([], None)
   \<and> s3_GetVisibility s
        (\<lambda>bucket key. ([\<lparr>GranteeURI = Some AllUsers, Permission = Some PermissionWrite\<rparr>], None))
        objectPath = ([], None)
   \<and> oss_GetVisibility sep (\<lambda>key. (''default'', None)) objectPath =
        ([], Some (Errorf ''invalid returned ACL value''))"
  by (simp add: s3_GetVisibility_def oss_GetVisibility_def StringValue_def PermissionWrite_def
      PermissionRead_def ACLPrivate_def ACLPublicRead_def ACLPublicReadWrite_def)

section \<open>Expiry of temporary URLs\<close>


section \<open>Multipart upload: the requests a put sends\<close>



lemma aborts_append: "aborts (xs @ ys) = aborts xs @ aborts ys"
  by (induction xs rule: aborts.induct) simp_all


lemma uploadMultipart_unrolled:
  "uploadMultipart service resp data pn w =
     (case uploadPart service (uploads w) of
        Inr t \<Rightarrow>
          ((Some \<lparr>ETag = t, PartNumber = pn\<rparr>, None),
           w\<lparr>sent := sent w @ [UploadPart (Bucket resp) (Key resp) (UploadId resp) data pn],
             uploads := Suc (uploads w)\<rparr>)
      | Inl e1 \<Rightarrow>
          (case uploadPart service (Suc (uploads w)) of
             Inr t \<Rightarrow>
               ((Some \<lparr>ETag = t, PartNumber = pn\<rparr>, None),
                w\<lparr>sent := sent w @
                    [UploadPart (Bucket resp) (Key resp) (UploadId resp) data pn,
                     Sleep (time_Second * 2),
                     UploadPart (Bucket resp) (Key resp) (UploadId resp) data pn],
                  uploads := Suc (Suc (uploads w))\<rparr>)
           | Inl e2 \<Rightarrow>
               (case uploadPart service (Suc (Suc (uploads w))) of
                  Inr t \<Rightarrow>
                    ((Some \<lparr>ETag = t, PartNumber = pn\<rparr>, None),
                     w\<lparr>sent := sent w @
                         [UploadPart (Bucket resp) (Key resp) (UploadId resp) data pn,
                          Sleep (time_Second * 2),
                          UploadPart (Bucket resp) (Key resp) (UploadId resp) data pn,
                          Sleep (time_Second * 2),
                          UploadPart (Bucket resp) (Key resp) (UploadId resp) data pn],
                       uploads := Suc (Suc (Suc (uploads w)))\<rparr>)
                | Inl e3 \<Rightarrow>
                    ((None, Some e3),
                     w\<lparr>sent := sent w @
                         [UploadPart (Bucket resp) (Key resp) (UploadId resp) data pn,
                          Sleep (time_Second * 2),
                          UploadPart (Bucket resp) (Key resp) (UploadId resp) data pn,
                          Sleep (time_Second * 2),
                          UploadPart (Bucket resp) (Key resp) (UploadId resp) data pn],
                       uploads := Suc (Suc (Suc (uploads w)))\<rparr>))))"
  by (simp add: uploadMultipart_def maxRetry_def send_def send_upload_def Let_def split: sum.splits)







declare chunks.simps [simp del]











section \<open>Retrying a part\<close>

text \<open>
  Claim C4. One part is submitted at most three times, with a pause of two seconds between
  two attempts. When the first two attempts fail and the third succeeds, the part is
  complete and the put goes on with the next read as after a first-time success. When all
  three attempts fail, the error of the third is the part's error, and the put sends an
  abort request; it returns that third error when the abort succeeds, and the abort's
  error when the abort fails.
\<close>

theorem part_upload_retry:
  "(let U = UploadPart (Bucket resp) (Key resp) (UploadId resp) data pn;
        P = Sleep (time_Second * 2);
        A = AbortMultipartUpload (Bucket resp) (Key resp) (UploadId resp);
        w3 = w\<lparr>sent := sent w @ [U, P, U, P, U], uploads := uploads w + 3\<rparr>;
        readable = ((err = None \<or> err = Some io_EOF) \<and> data \<noteq> [] \<and> length data \<le> s3PartSize)
    in uploads (snd (uploadMultipart service resp data pn w)) \<le> uploads w + 3
       \<and> (uploadPart service (uploads w) = Inl e1 \<and> uploadPart service (uploads w + 1) = Inl e2
            \<and> uploadPart service (uploads w + 2) = Inr etag \<longrightarrow>
          uploadMultipart service resp data pn w = ((Some \<lparr>ETag = etag, PartNumber = pn\<rparr>, None), w3)
          \<and> (readable \<longrightarrow>
               put_loop service resp ((data, err) # rest) pn parts w =
               put_loop service resp rest (pn + 1) (parts @ [Some \<lparr>ETag = etag, PartNumber = pn\<rparr>]) w3))
       \<and> (uploadPart service (uploads w) = Inl e1 \<and> uploadPart service (uploads w + 1) = Inl e2
            \<and> uploadPart service (uploads w + 2) = Inl e3 \<longrightarrow>
          uploadMultipart service resp data pn w = ((None, Some e3), w3)
          \<and> (readable \<longrightarrow>
               put_loop service resp ((data, err) # rest) pn parts w =
               (Returned (Some (case abortMultipartUpload service of None \<Rightarrow> e3 | Some aerr \<Rightarrow> aerr)),
                w3\<lparr>sent := sent w3 @ [A]\<rparr>))))"
  by (auto simp: Let_def uploadMultipart_unrolled abortMultipartUpload_call_def send_def
      numeral_3_eq_3 split: sum.splits option.splits)


lemma clean_a_txt: "cleanS3ObjectPath (CHR ''/'') ''a.txt'' = ''a.txt''"
  by (simp add: cleanS3ObjectPath_def filepath_ToSlash_def path_Clean_def)

theorem part_upload_retry_witness:
  "s3_Put (CHR ''/'') \<lparr>bucketName = ''bucket'', region = ''eu''\<rparr>
        \<lparr>createMultipartUpload = Inr \<lparr>Bucket = ''bucket'', Key = ''a.txt'', UploadId = ''u''\<rparr>,
         uploadPart = (\<lambda>n. if n = 0 then Inl (External ''e1'') else if n = 1 then Inl (External ''e2'')
                            else Inr ''tag''),
         abortMultipartUpload = None, completeMultipartUpload = None\<rparr>
        ''a.txt'' [([1, 2, 3], None)] ObjectPrivate =
      (Returned None,
       \<lparr>sent = [CreateMultipartUpload ''private'' ''bucket'' ''a.txt'',
                UploadPart ''bucket'' ''a.txt'' ''u'' [1, 2, 3] 1, Sleep 2000000000,
                UploadPart ''bucket'' ''a.txt'' ''u'' [1, 2, 3] 1, Sleep 2000000000,
                UploadPart ''bucket'' ''a.txt'' ''u'' [1, 2, 3] 1,
                CompleteMultipartUpload ''bucket'' ''a.txt'' ''u'' [Some \<lparr>ETag = ''tag'', PartNumber = 1\<rparr>]],
         uploads = 3\<rparr>)
   \<and> s3_Put (CHR ''/'') \<lparr>bucketName = ''bucket'', region = ''eu''\<rparr>
        \<lparr>createMultipartUpload = Inr \<lparr>Bucket = ''bucket'', Key = ''a.txt'', UploadId = ''u''\<rparr>,
         uploadPart = (\<lambda>n. if n = 0 then Inl (External ''e1'') else if n = 1 then Inl (External ''e2'')
                            else Inl (External ''e3'')),
         abortMultipartUpload = None, completeMultipartUpload = None\<rparr>
        ''a.txt'' [([1, 2, 3], None)] ObjectPrivate =
      (Returned (Some (External ''e3'')),
       \<lparr>sent = [CreateMultipartUpload ''private'' ''bucket'' ''a.txt'',
                UploadPart ''bucket'' ''a.txt'' ''u'' [1, 2, 3] 1, Sleep 2000000000,
                UploadPart ''bucket'' ''a.txt'' ''u'' [1, 2, 3] 1, Sleep 2000000000,
                UploadPart ''bucket'' ''a.txt'' ''u'' [1, 2, 3] 1,
                AbortMultipartUpload ''bucket'' ''a.txt'' ''u''],
         uploads = 3\<rparr>)"
proof -
  let ?st = "\<lparr>bucketName = ''bucket'', region = ''eu''\<rparr>"
  let ?resp = "\<lparr>Bucket = ''bucket'', Key = ''a.txt'', UploadId = ''u''\<rparr>"
  let ?w = "\<lparr>sent = [CreateMultipartUpload ''private'' ''bucket'' ''a.txt''], uploads = 0\<rparr>"
  let ?A = "\<lparr>createMultipartUpload = Inr \<lparr>Bucket = ''bucket'', Key = ''a.txt'', UploadId = ''u''\<rparr>,
         uploadPart = (\<lambda>n. if n = 0 then Inl (External ''e1'') else if n = 1 then Inl (External ''e2'')
                            else Inr ''tag''),
         abortMultipartUpload = None, completeMultipartUpload = None\<rparr>"
  let ?B = "\<lparr>createMultipartUpload = Inr \<lparr>Bucket = ''bucket'', Key = ''a.txt'', UploadId = ''u''\<rparr>,
         uploadPart = (\<lambda>n. if n = 0 then Inl (External ''e1'') else if n = 1 then Inl (External ''e2'')
                            else Inl (External ''e3'')),
         abortMultipartUpload = None, completeMultipartUpload = None\<rparr>"
  have putA: "s3_Put (CHR ''/'') ?st ?A ''a.txt'' [([1, 2, 3], None)] ObjectPrivate =
      put_loop ?A ?resp [([1, 2, 3], None)] 1 [] ?w"
    by (simp add: s3_Put_def getS3ACLOrError_def clean_a_txt send_def ObjectPrivate_def Let_def
        ObjectPublicRead_def ObjectPublicReadWrite_def BucketCannedACLPrivate_def
        del: put_loop.simps)
  have putB: "s3_Put (CHR ''/'') ?st ?B ''a.txt'' [([1, 2, 3], None)] ObjectPrivate =
      put_loop ?B ?resp [([1, 2, 3], None)] 1 [] ?w"
    by (simp add: s3_Put_def getS3ACLOrError_def clean_a_txt send_def ObjectPrivate_def Let_def
        ObjectPublicRead_def ObjectPublicReadWrite_def BucketCannedACLPrivate_def
        del: put_loop.simps)
  note a = part_upload_retry [where resp = ?resp and data = "[1, 2, 3]" and pn = 1 and w = ?w
      and err = None and service = ?A and ?e1.0 = "External ''e1''" and ?e2.0 = "External ''e2''"
      and etag = "''tag''" and rest = "[]" and parts = "[]"]
  note b = part_upload_retry [where resp = ?resp and data = "[1, 2, 3]" and pn = 1 and w = ?w
      and err = None and service = ?B and ?e1.0 = "External ''e1''" and ?e2.0 = "External ''e2''"
      and ?e3.0 = "External ''e3''" and rest = "[]" and parts = "[]"]
  have A: "put_loop ?A ?resp [([1, 2, 3], None)] 1 [] ?w =
      (Returned None,
       \<lparr>sent = [CreateMultipartUpload ''private'' ''bucket'' ''a.txt'',
                UploadPart ''bucket'' ''a.txt'' ''u'' [1, 2, 3] 1, Sleep 2000000000,
                UploadPart ''bucket'' ''a.txt'' ''u'' [1, 2, 3] 1, Sleep 2000000000,
                UploadPart ''bucket'' ''a.txt'' ''u'' [1, 2, 3] 1,
                CompleteMultipartUpload ''bucket'' ''a.txt'' ''u'' [Some \<lparr>ETag = ''tag'', PartNumber = 1\<rparr>]],
         uploads = 3\<rparr>)"
  proof -
    have "put_loop ?A ?resp [([1, 2, 3], None)] 1 [] ?w =
        put_loop ?A ?resp [] (1 + 1) ([] @ [Some \<lparr>ETag = ''tag'', PartNumber = 1\<rparr>])
          \<lparr>sent = [CreateMultipartUpload ''private'' ''bucket'' ''a.txt'',
                UploadPart ''bucket'' ''a.txt'' ''u'' [1, 2, 3] 1, Sleep 2000000000,
                UploadPart ''bucket'' ''a.txt'' ''u'' [1, 2, 3] 1, Sleep 2000000000,
                UploadPart ''bucket'' ''a.txt'' ''u'' [1, 2, 3] 1], uploads = 3\<rparr>"
      using a by (simp add: Let_def s3PartSize_def time_Second_def del: put_loop.simps)
    then show ?thesis
      by (simp add: completeMultipartUpload_call_def send_def)
  qed
  have B: "put_loop ?B ?resp [([1, 2, 3], None)] 1 [] ?w =
      (Returned (Some (External ''e3'')),
       \<lparr>sent = [CreateMultipartUpload ''private'' ''bucket'' ''a.txt'',
                UploadPart ''bucket'' ''a.txt'' ''u'' [1, 2, 3] 1, Sleep 2000000000,
                UploadPart ''bucket'' ''a.txt'' ''u'' [1, 2, 3] 1, Sleep 2000000000,
                UploadPart ''bucket'' ''a.txt'' ''u'' [1, 2, 3] 1,
                AbortMultipartUpload ''bucket'' ''a.txt'' ''u''],
         uploads = 3\<rparr>)"
    using b by (simp add: Let_def s3PartSize_def time_Second_def del: put_loop.simps)
  show ?thesis
    by (simp only: putA putB A B)
qed

text \<open>
  Three failed attempts followed by a failed abort: the put returns the abort's error, not
  the last submission error.
\<close>

theorem part_upload_abort_failure_counterexample:
  "uploadPart \<lparr>createMultipartUpload = Inr \<lparr>Bucket = ''bucket'', Key = ''a.txt'', UploadId = ''u''\<rparr>,
         uploadPart = (\<lambda>n. if n = 0 then Inl (External ''e1'') else if n = 1 then Inl (External ''e2'')
                            else Inl (External ''e3'')),
         abortMultipartUpload = Some (External ''abort failed''), completeMultipartUpload = None\<rparr> 0 = Inl (External ''e1'')
   \<and> uploadPart \<lparr>createMultipartUpload = Inr \<lparr>Bucket = ''bucket'', Key = ''a.txt'', UploadId = ''u''\<rparr>,
         uploadPart = (\<lambda>n. if n = 0 then Inl (External ''e1'') else if n = 1 then Inl (External ''e2'')
                            else Inl (External ''e3'')),
         abortMultipartUpload = Some (External ''abort failed''), completeMultipartUpload = None\<rparr> 1 = Inl (External ''e2'')
   \<and> uploadPart \<lparr>createMultipartUpload = Inr \<lparr>Bucket = ''bucket'', Key = ''a.txt'', UploadId = ''u''\<rparr>,
         uploadPart = (\<lambda>n. if n = 0 then Inl (External ''e1'') else if n = 1 then Inl (External ''e2'')
                            else Inl (External ''e3'')),
         abortMultipartUpload = Some (External ''abort failed''), completeMultipartUpload = None\<rparr> 2 = Inl (External ''e3'')
   \<and> fst (s3_Put (CHR ''/'') \<lparr>bucketName = ''bucket'', region = ''eu''\<rparr>
        \<lparr>createMultipartUpload = Inr \<lparr>Bucket = ''bucket'', Key = ''a.txt'', UploadId = ''u''\<rparr>,
         uploadPart = (\<lambda>n. if n = 0 then Inl (External ''e1'') else if n = 1 then Inl (External ''e2'')
                            else Inl (External ''e3'')),
         abortMultipartUpload = Some (External ''abort failed''), completeMultipartUpload = None\<rparr>
        ''a.txt'' [([1, 2, 3], None)] ObjectPrivate) = Returned (Some (External ''abort failed''))
   \<and> fst (s3_Put (CHR ''/'') \<lparr>bucketName = ''bucket'', region = ''eu''\<rparr>
        \<lparr>createMultipartUpload = Inr \<lparr>Bucket = ''bucket'', Key = ''a.txt'', UploadId = ''u''\<rparr>,
         uploadPart = (\<lambda>n. if n = 0 then Inl (External ''e1'') else if n = 1 then Inl (External ''e2'')
                            else Inl (External ''e3'')),
         abortMultipartUpload = Some (External ''abort failed''), completeMultipartUpload = None\<rparr>
        ''a.txt'' [([1, 2, 3], None)] ObjectPrivate) \<noteq> Returned (Some (External ''e3''))"
  by (simp add: s3_Put_def getS3ACLOrError_def send_def ObjectPrivate_def Let_def s3PartSize_def
      ObjectPublicRead_def ObjectPublicReadWrite_def uploadMultipart_unrolled
      abortMultipartUpload_call_def)

section \<open>Where a cleaned key lies\<close>

lemma split_slash_not_Nil [simp]: "split_slash p \<noteq> []"
  by (induction p) (auto split: list.splits)






















subsection \<open>The key of the normalising operations\<close>








end
